theory Spec2Isabelle
  imports Complex_Main "HOL-Library.AList"
begin

section \<open>Timeline elements\<close>

text \<open>
  JavaScript numbers are modelled as \<^typ>\<open>real\<close>: the comparisons and the four arithmetic
  operations of the source are read as exact, so rounding and NaN are outside the model.
  A value of type \<open>string | null\<close> is a \<^typ>\<open>string option\<close>, an optional field an
  \<open>option\<close>.
\<close>

datatype element_type = Video | Audio | Image | Text

record crop_rect =
  crop_x :: real
  crop_y :: real
  crop_width :: real
  crop_height :: real

text \<open>
  Modelled from the spec: the type \<open>TimelineElement\<close> is imported from
  \<open>@/types/timeline\<close>, which is not among the sources. The record has the fields the two
  components read: \<open>id\<close>, \<open>type\<close>, \<open>start\<close>, \<open>end\<close> and, of the content payload, \<open>src\<close>,
  the optional \<open>crop\<close>, the optional \<open>volume\<close> and the optional \<open>muted\<close>.
\<close>

record element_content =
  content_src :: string
  content_crop :: "crop_rect option"
  content_volume :: "real option"
  content_muted :: "bool option"

record element =
  el_id :: string
  el_type :: element_type
  el_start :: real
  el_end :: real
  el_content :: element_content

text \<open>
  Where the source tests a \<open>string | null\<close> value for truthiness, the model tests for
  \<open>None\<close> and for the empty string, the two falsy values of that type.
\<close>

section \<open>Active-element selection (Preview)\<close>

text \<open>The window test shared by \<open>elements.find\<close> and \<open>elements.filter\<close> in Preview.\<close>

definition inWindow :: "real \<Rightarrow> element \<Rightarrow> bool" where
  "inWindow currentTime el = (currentTime \<ge> el_start el \<and> currentTime \<le> el_end el)"

text \<open>\<open>const videoElement = elements.find(el => el.type === "video" && ...)\<close>\<close>

definition videoElement :: "element list \<Rightarrow> real \<Rightarrow> element option" where
  "videoElement elements currentTime =
     List.find (\<lambda>el. el_type el = Video \<and> inWindow currentTime el) elements"

text \<open>\<open>const activeAudioElements = elements.filter(el => el.type === "audio" && ...)\<close>\<close>

definition activeAudioElements :: "element list \<Rightarrow> real \<Rightarrow> element list" where
  "activeAudioElements elements currentTime =
     filter (\<lambda>el. el_type el = Audio \<and> inWindow currentTime el) elements"

section \<open>The crop tool\<close>

record aspect_ratio_option =
  opt_id :: string
  opt_name :: string
  opt_value :: "real option"

text \<open>The table of offered ratios; the \<open>icon\<close> glyphs are presentation only and left out.\<close>

definition aspectRatioOptions :: "aspect_ratio_option list" where
  "aspectRatioOptions =
     [\<lparr>opt_id = ''freeform'', opt_name = ''Freeform'', opt_value = None\<rparr>,
      \<lparr>opt_id = ''1:1'', opt_name = ''1:1'', opt_value = Some 1\<rparr>,
      \<lparr>opt_id = ''16:9'', opt_name = ''16:9'', opt_value = Some (16 / 9)\<rparr>,
      \<lparr>opt_id = ''9:16'', opt_name = ''9:16'', opt_value = Some (9 / 16)\<rparr>,
      \<lparr>opt_id = ''5:4'', opt_name = ''5:4'', opt_value = Some (5 / 4)\<rparr>,
      \<lparr>opt_id = ''4:5'', opt_name = ''4:5'', opt_value = Some (4 / 5)\<rparr>,
      \<lparr>opt_id = ''4:3'', opt_name = ''4:3'', opt_value = Some (4 / 3)\<rparr>,
      \<lparr>opt_id = ''3:4'', opt_name = ''3:4'', opt_value = Some (3 / 4)\<rparr>,
      \<lparr>opt_id = ''3:2'', opt_name = ''3:2'', opt_value = Some (3 / 2)\<rparr>]"

text \<open>The component state of CropTool (its \<open>useState\<close> cells).\<close>

record crop_tool =
  cropX :: real
  cropY :: real
  cropWidth :: real
  cropHeight :: real
  previewCrop :: "crop_rect option"
  selectedAspectRatio :: "string option"

definition initialCropTool :: crop_tool where
  "initialCropTool =
     \<lparr>cropX = 0, cropY = 0, cropWidth = 100, cropHeight = 100,
      previewCrop = None, selectedAspectRatio = Some ''freeform''\<rparr>"

text \<open>What a handler of CropTool does to the outside: the parent callback and the toasts.\<close>

datatype crop_call =
    OnCropApply string crop_rect
  | ToastError string
  | ToastSuccess string

definition currentCrop :: "crop_tool \<Rightarrow> crop_rect" where
  "currentCrop st =
     \<lparr>crop_x = cropX st, crop_y = cropY st, crop_width = cropWidth st, crop_height = cropHeight st\<rparr>"

definition defaultCrop :: crop_rect where
  "defaultCrop = \<lparr>crop_x = 0, crop_y = 0, crop_width = 100, crop_height = 100\<rparr>"

text \<open>\<open>selectedElementId ? elements.find(el => el.id === selectedElementId) : null\<close>\<close>

definition selectedElement :: "element list \<Rightarrow> string option \<Rightarrow> element option" where
  "selectedElement elements selectedElementId =
     (case selectedElementId of
        None \<Rightarrow> None
      | Some i \<Rightarrow> if i = [] then None else List.find (\<lambda>el. el_id el = i) elements)"

definition croppable :: "element \<Rightarrow> bool" where
  "croppable el = (el_type el = Video \<or> el_type el = Image)"

text \<open>The effect that runs when the selected element changes.\<close>

definition onSelectedElementChange :: "element list \<Rightarrow> string option \<Rightarrow> crop_tool \<Rightarrow> crop_tool" where
  "onSelectedElementChange elements selectedElementId st =
     (case selectedElement elements selectedElementId of
        None \<Rightarrow> st
      | Some el \<Rightarrow>
          if croppable el then
            (let crop = (case content_crop (el_content el) of None \<Rightarrow> defaultCrop | Some c \<Rightarrow> c)
             in \<lparr>cropX = crop_x crop, cropY = crop_y crop,
                 cropWidth = crop_width crop, cropHeight = crop_height crop,
                 previewCrop = Some crop, selectedAspectRatio = Some ''freeform''\<rparr>)
          else st)"

text \<open>
  The debounced effect: the body of its timer, which runs 100 ms after the last change of
  the crop values or of the selection. It looks at \<open>selectedElementId\<close> only.
\<close>

definition debouncedCropApply :: "string option \<Rightarrow> crop_tool \<Rightarrow> crop_call list" where
  "debouncedCropApply selectedElementId st =
     (case selectedElementId of
        None \<Rightarrow> []
      | Some i \<Rightarrow> if i = [] then [] else [OnCropApply i (currentCrop st)])"

definition handleApplyCrop ::
  "element list \<Rightarrow> string option \<Rightarrow> crop_tool \<Rightarrow> crop_tool \<times> crop_call list" where
  "handleApplyCrop elements selectedElementId st =
     (case selectedElementId of
        None \<Rightarrow> (st, [])
      | Some i \<Rightarrow>
          (case selectedElement elements selectedElementId of
             None \<Rightarrow> (st, [])
           | Some el \<Rightarrow>
               if el_type el \<noteq> Video \<and> el_type el \<noteq> Image then
                 (st, [ToastError ''Cropping is only available for video and image elements''])
               else
                 (st\<lparr>previewCrop := Some (currentCrop st)\<rparr>,
                  [OnCropApply i (currentCrop st), ToastSuccess ''Crop applied successfully''])))"

definition handleResetCrop :: "string option \<Rightarrow> crop_tool \<Rightarrow> crop_tool \<times> crop_call list" where
  "handleResetCrop selectedElementId st =
     (let st1 = st\<lparr>cropX := 0, cropY := 0, cropWidth := 100, cropHeight := 100,
                    selectedAspectRatio := Some ''freeform''\<rparr>
      in case selectedElementId of
           None \<Rightarrow> (st1, [])
         | Some i \<Rightarrow>
             if i = [] then (st1, [])
             else (st1\<lparr>previewCrop := Some defaultCrop\<rparr>, [OnCropApply i defaultCrop]))"

definition handleAspectRatioChange :: "string \<Rightarrow> crop_tool \<Rightarrow> crop_tool" where
  "handleAspectRatioChange ratioId st =
     (let st1 = st\<lparr>selectedAspectRatio := Some ratioId\<rparr>
      in case List.find (\<lambda>option. opt_id option = ratioId) aspectRatioOptions of
           None \<Rightarrow> st1
         | Some ratioOption \<Rightarrow>
             (case opt_value ratioOption of
                None \<Rightarrow> st1
              | Some r \<Rightarrow>
                  (let newWidth = cropWidth st;
                       newHeight = newWidth / r;
                       newWidth' = (if newHeight > 100 then 100 * r else newWidth);
                       newHeight' = (if newHeight > 100 then 100 else newHeight)
                   in st1\<lparr>cropWidth := newWidth', cropHeight := newHeight',
                          previewCrop := Some \<lparr>crop_x = cropX st, crop_y = cropY st,
                                                crop_width = newWidth', crop_height = newHeight'\<rparr>\<rparr>)))"

text \<open>
  The ratio the two size sliders use: \<open>selectedAspectRatio && selectedAspectRatio !==
  "freeform"\<close>, then the option of that id, then \<open>ratio && ratio.value\<close> (a number is truthy
  when it is not zero).
\<close>

definition lockedRatio :: "crop_tool \<Rightarrow> real option" where
  "lockedRatio st =
     (case selectedAspectRatio st of
        None \<Rightarrow> None
      | Some s \<Rightarrow>
          if s = [] \<or> s = ''freeform'' then None
          else (case List.find (\<lambda>opt. opt_id opt = s) aspectRatioOptions of
                  None \<Rightarrow> None
                | Some ratio \<Rightarrow>
                    (case opt_value ratio of
                       None \<Rightarrow> None
                     | Some r \<Rightarrow> if r = 0 then None else Some r)))"

text \<open>\<open>onValueChange\<close> of the Width slider and of the Height slider.\<close>

definition onWidthChange :: "real \<Rightarrow> crop_tool \<Rightarrow> crop_tool" where
  "onWidthChange v st =
     (let st1 = st\<lparr>cropWidth := v\<rparr>
      in case lockedRatio st of
           None \<Rightarrow> st1
         | Some r \<Rightarrow> st1\<lparr>cropHeight := v / r\<rparr>)"

definition onHeightChange :: "real \<Rightarrow> crop_tool \<Rightarrow> crop_tool" where
  "onHeightChange v st =
     (let st1 = st\<lparr>cropHeight := v\<rparr>
      in case lockedRatio st of
           None \<Rightarrow> st1
         | Some r \<Rightarrow> st1\<lparr>cropWidth := v * r\<rparr>)"

section \<open>The preview: state\<close>

text \<open>
  The media elements of the browser, reduced to the attributes the component reads or
  writes. \<open>new Audio(src)\<close> gives a paused player at position 0 with full volume.
\<close>

record audio_player =
  player_src :: string
  player_currentTime :: real
  player_volume :: real
  player_muted :: bool
  player_paused :: bool

record video_player =
  video_currentTime :: real
  video_volume :: real
  video_muted :: bool
  video_paused :: bool

definition newAudio :: "string \<Rightarrow> audio_player" where
  "newAudio src =
     \<lparr>player_src = src, player_currentTime = 0, player_volume = 1,
      player_muted = False, player_paused = True\<rparr>"

text \<open>The callbacks of the parent, and what is written with \<open>console.error\<close>.\<close>

datatype preview_call = OnPlay | OnPause | OnTimeUpdate real | OnRestart

datatype console_error = AudioPlayError string | VideoPlayError

text \<open>
  The state of Preview. \<open>volume\<close>, \<open>isMuted\<close>, \<open>videoEnded\<close> and \<open>isBuffering\<close> are its
  \<open>useState\<close> cells; \<open>videoRef\<close>, \<open>audioRefs\<close>, \<open>activeAudioElementsRef\<close>, \<open>lastTimeRef\<close> and
  \<open>timeUpdateBlocker\<close> are its refs. The object \<open>audioRefs.current\<close> is an association list
  from element id to player, in insertion order; a player is reachable through this object
  only, so it is stored in the list itself.

  The remaining fields record what the component does to its surroundings: \<open>calls\<close> the
  parent callbacks it invoked, \<open>console_errors\<close> its error reports, \<open>released\<close> the players
  it dropped from \<open>audioRefs.current\<close> in the state it left them in, \<open>timers\<close> the deadlines
  of the pending \<open>setTimeout\<close> callbacks and \<open>now\<close> the time in milliseconds.

  An effect or a handler runs to completion: the events of a player and the callbacks of
  timeouts are delivered between such runs, never within one. Each is therefore a function
  from the state before to the state after, and the passing of time is a step of its own.
\<close>

record preview =
  volume :: real
  isMuted :: bool
  videoEnded :: bool
  isBuffering :: bool
  videoRef :: "video_player option"
  audioRefs :: "(string \<times> audio_player) list"
  activeAudioElementsRef :: "element list"
  lastTimeRef :: real
  timeUpdateBlocker :: bool
  calls :: "preview_call list"
  console_errors :: "console_error list"
  released :: "(string \<times> audio_player) list"
  timers :: "nat list"
  now :: nat

section \<open>The preview: audio players\<close>

text \<open>
  \<open>audioElement.play()\<close> with its \<open>catch\<close>: whether the browser lets a source play is a
  parameter \<open>playable\<close> of the model. A refused start leaves the player paused and is
  reported with \<open>console.error\<close>.
\<close>

definition playAudio ::
  "(string \<Rightarrow> bool) \<Rightarrow> string \<Rightarrow> audio_player \<Rightarrow> audio_player \<times> console_error list" where
  "playAudio playable i audioElement =
     (if playable (player_src audioElement)
      then (audioElement\<lparr>player_paused := False\<rparr>, [])
      else (audioElement, [AudioPlayError i]))"

text \<open>The body of the first \<open>forEach\<close> of the reconciliation effect: one active audio clip.\<close>

definition createAudio ::
  "(string \<Rightarrow> bool) \<Rightarrow> real \<Rightarrow> bool \<Rightarrow> element \<Rightarrow> preview \<Rightarrow> preview" where
  "createAudio playable currentTime isPlaying audio st =
     (case map_of (audioRefs st) (el_id audio) of
        Some _ \<Rightarrow> st
      | None \<Rightarrow>
          (let audioElement = newAudio (content_src (el_content audio));
               audioElement = audioElement\<lparr>player_muted := False\<rparr>;
               audioElement = audioElement\<lparr>player_volume :=
                 (case content_volume (el_content audio) of
                    Some v \<Rightarrow> v
                  | None \<Rightarrow> volume st / 100)\<rparr>;
               audioLocalTime = max 0 (currentTime - el_start audio);
               audioElement = audioElement\<lparr>player_currentTime := audioLocalTime\<rparr>;
               (audioElement, errs) =
                 (if isPlaying then playAudio playable (el_id audio) audioElement
                  else (audioElement, []))
           in st\<lparr>audioRefs := AList.update (el_id audio) audioElement (audioRefs st),
                 console_errors := console_errors st @ errs\<rparr>))"

text \<open>The body of the second \<open>forEach\<close>: one key of \<open>audioRefs.current\<close>.\<close>

definition removeInactive :: "element list \<Rightarrow> string \<Rightarrow> preview \<Rightarrow> preview" where
  "removeInactive active i st =
     (if \<not> list_ex (\<lambda>a. el_id a = i) active then
        (case map_of (audioRefs st) i of
           None \<Rightarrow> st
         | Some audio \<Rightarrow>
             st\<lparr>released := released st @ [(i, audio\<lparr>player_paused := True\<rparr>)],
                audioRefs := AList.delete i (audioRefs st)\<rparr>)
      else st)"

text \<open>The reconciliation effect, dependencies \<open>[elements, currentTime, isPlaying, volume]\<close>.\<close>

definition reconcileAudio ::
  "(string \<Rightarrow> bool) \<Rightarrow> element list \<Rightarrow> real \<Rightarrow> bool \<Rightarrow> preview \<Rightarrow> preview" where
  "reconcileAudio playable elements currentTime isPlaying st =
     (let active = activeAudioElements elements currentTime;
          st1 = st\<lparr>activeAudioElementsRef := active\<rparr>;
          st2 = fold (createAudio playable currentTime isPlaying) active st1
      in fold (removeInactive active) (map fst (audioRefs st2)) st2)"

text \<open>The time synchronisation effect of the audio players, dependencies \<open>[currentTime]\<close>.\<close>

definition syncOneAudio :: "real \<Rightarrow> element \<Rightarrow> preview \<Rightarrow> preview" where
  "syncOneAudio currentTime audio st =
     (case map_of (audioRefs st) (el_id audio) of
        None \<Rightarrow> st
      | Some audioElement \<Rightarrow>
          (let audioLocalTime = max 0 (currentTime - el_start audio)
           in if \<bar>player_currentTime audioElement - audioLocalTime\<bar> > 0.2 then
                st\<lparr>audioRefs := AList.update (el_id audio)
                      (audioElement\<lparr>player_currentTime := audioLocalTime\<rparr>) (audioRefs st)\<rparr>
              else st))"

definition syncAudioTime :: "real \<Rightarrow> preview \<Rightarrow> preview" where
  "syncAudioTime currentTime st =
     (let st1 = (if \<bar>currentTime - lastTimeRef st\<bar> > 0.1
                 then fold (syncOneAudio currentTime) (activeAudioElementsRef st) st
                 else st)
      in st1\<lparr>lastTimeRef := currentTime\<rparr>)"

text \<open>The volume and mute state that the two later effects give an active player.\<close>

definition finalVolume :: "element \<Rightarrow> preview \<Rightarrow> real" where
  "finalVolume audio st =
     (case content_volume (el_content audio) of Some v \<Rightarrow> v | None \<Rightarrow> 1) * (volume st / 100)"

definition finalMuted :: "element \<Rightarrow> preview \<Rightarrow> bool" where
  "finalMuted audio st =
     (isMuted st \<or> (case content_muted (el_content audio) of Some m \<Rightarrow> m | None \<Rightarrow> False))"

text \<open>The transport effect, dependencies \<open>[isPlaying, isMuted, volume]\<close>.\<close>

definition controlOneAudio :: "(string \<Rightarrow> bool) \<Rightarrow> bool \<Rightarrow> element \<Rightarrow> preview \<Rightarrow> preview" where
  "controlOneAudio playable isPlaying audio st =
     (case map_of (audioRefs st) (el_id audio) of
        None \<Rightarrow> st
      | Some audioElement \<Rightarrow>
          (let audioElement = audioElement\<lparr>player_volume := finalVolume audio st,
                                            player_muted := finalMuted audio st\<rparr>;
               (audioElement, errs) =
                 (if isPlaying then playAudio playable (el_id audio) audioElement
                  else (audioElement\<lparr>player_paused := True\<rparr>, []))
           in st\<lparr>audioRefs := AList.update (el_id audio) audioElement (audioRefs st),
                 console_errors := console_errors st @ errs\<rparr>))"

definition controlAudioPlayback :: "(string \<Rightarrow> bool) \<Rightarrow> bool \<Rightarrow> preview \<Rightarrow> preview" where
  "controlAudioPlayback playable isPlaying st =
     fold (controlOneAudio playable isPlaying) (activeAudioElementsRef st) st"

text \<open>The volume effect, dependencies \<open>[volume, isMuted]\<close>.\<close>

definition applyOneAudioVolume :: "element \<Rightarrow> preview \<Rightarrow> preview" where
  "applyOneAudioVolume audio st =
     (case map_of (audioRefs st) (el_id audio) of
        None \<Rightarrow> st
      | Some audioElement \<Rightarrow>
          st\<lparr>audioRefs := AList.update (el_id audio)
                (audioElement\<lparr>player_volume := finalVolume audio st,
                               player_muted := finalMuted audio st\<rparr>) (audioRefs st)\<rparr>)"

definition applyAudioVolume :: "preview \<Rightarrow> preview" where
  "applyAudioVolume st = fold applyOneAudioVolume (activeAudioElementsRef st) st"

text \<open>The cleanup that runs on unmount: pause every player, then \<open>audioRefs.current = {}\<close>.\<close>

definition unmountAudio :: "preview \<Rightarrow> preview" where
  "unmountAudio st =
     st\<lparr>released := released st @
           map (\<lambda>(i, audio). (i, audio\<lparr>player_paused := True\<rparr>)) (audioRefs st),
        audioRefs := []\<rparr>"

section \<open>The preview: the video player\<close>

text \<open>
  The listeners are attached to the video element of \<open>videoRef.current\<close>; without one the
  effect returns before it registers them.
\<close>

definition handleTimeUpdate :: "preview \<Rightarrow> preview" where
  "handleTimeUpdate st =
     (case videoRef st of
        None \<Rightarrow> st
      | Some video \<Rightarrow>
          if timeUpdateBlocker st then st
          else st\<lparr>calls := calls st @ [OnTimeUpdate (video_currentTime video)]\<rparr>)"

definition handleVideoEnd :: "preview \<Rightarrow> preview" where
  "handleVideoEnd st =
     (case videoRef st of
        None \<Rightarrow> st
      | Some video \<Rightarrow> st\<lparr>videoEnded := True, calls := calls st @ [OnPause]\<rparr>)"

definition handleWaiting :: "preview \<Rightarrow> preview" where
  "handleWaiting st = (case videoRef st of None \<Rightarrow> st | Some video \<Rightarrow> st\<lparr>isBuffering := True\<rparr>)"

definition handlePlaying :: "preview \<Rightarrow> preview" where
  "handlePlaying st = (case videoRef st of None \<Rightarrow> st | Some video \<Rightarrow> st\<lparr>isBuffering := False\<rparr>)"

text \<open>
  The play/pause effect, dependencies \<open>[isPlaying, onPause, videoEnded, currentTime,
  duration, onTimeUpdate, isMuted]\<close>. It reads \<open>videoEnded\<close> as it was rendered, and sets
  and clears \<open>timeUpdateBlocker\<close> within one run. \<open>playable\<close> says whether the browser lets
  the video start; a refused start is reported and the parent asked to pause.
\<close>

definition playPauseEffect :: "bool \<Rightarrow> bool \<Rightarrow> real \<Rightarrow> real \<Rightarrow> preview \<Rightarrow> preview" where
  "playPauseEffect playable isPlaying currentTime duration st =
     (case videoRef st of
        None \<Rightarrow> st
      | Some video \<Rightarrow>
          if isPlaying then
            (let (st1, video1) =
                   (if videoEnded st then
                      (let st' = st\<lparr>videoEnded := False\<rparr>
                       in if currentTime \<ge> duration - 0.1 then
                            (let st' = st'\<lparr>timeUpdateBlocker := True\<rparr>;
                                 st' = st'\<lparr>calls := calls st' @ [OnTimeUpdate 0]\<rparr>;
                                 video' = video\<lparr>video_currentTime := 0\<rparr>;
                                 st' = st'\<lparr>timeUpdateBlocker := False\<rparr>
                             in (st', video'))
                          else (st', video))
                    else (st, video));
                 video2 = video1\<lparr>video_muted := isMuted st\<rparr>
             in if playable then
                  st1\<lparr>videoRef := Some (video2\<lparr>video_paused := False\<rparr>)\<rparr>
                else
                  st1\<lparr>videoRef := Some video2,
                       console_errors := console_errors st1 @ [VideoPlayError],
                       calls := calls st1 @ [OnPause]\<rparr>)
          else st\<lparr>videoRef := Some (video\<lparr>video_paused := True\<rparr>)\<rparr>)"

text \<open>
  The time synchronisation effect of the video, dependencies \<open>[currentTime]\<close>. The
  \<open>setTimeout\<close> of 50 ms is a new entry of \<open>timers\<close>; nothing cancels an earlier one.
\<close>

definition syncVideoTime :: "real \<Rightarrow> preview \<Rightarrow> preview" where
  "syncVideoTime currentTime st =
     (case videoRef st of
        None \<Rightarrow> st
      | Some video \<Rightarrow>
          if \<bar>video_currentTime video - currentTime\<bar> > 0.2 then
            st\<lparr>timeUpdateBlocker := True,
               videoRef := Some (video\<lparr>video_currentTime := currentTime\<rparr>),
               timers := timers st @ [now st + 50]\<rparr>
          else st)"

text \<open>The callback of that timeout.\<close>

definition resetBlocker :: "preview \<Rightarrow> preview" where
  "resetBlocker st = st\<lparr>timeUpdateBlocker := False\<rparr>"

text \<open>
  The passing of \<open>d\<close> milliseconds: every timeout whose deadline is reached runs and leaves
  the list.
\<close>

definition elapse :: "nat \<Rightarrow> preview \<Rightarrow> preview" where
  "elapse d st =
     (let t = now st + d;
          due = filter (\<lambda>deadline. deadline \<le> t) (timers st);
          st1 = fold (\<lambda>_. resetBlocker) due st
      in st1\<lparr>timers := filter (\<lambda>deadline. \<not> deadline \<le> t) (timers st), now := t\<rparr>)"

text \<open>The volume effect of the video, dependencies \<open>[volume, isMuted]\<close>.\<close>

definition applyVideoVolume :: "preview \<Rightarrow> preview" where
  "applyVideoVolume st =
     (case videoRef st of
        None \<Rightarrow> st
      | Some video \<Rightarrow>
          st\<lparr>videoRef := Some (video\<lparr>video_volume := volume st / 100, video_muted := isMuted st\<rparr>)\<rparr>)"

definition handleRestart :: "preview \<Rightarrow> preview" where
  "handleRestart st = st\<lparr>videoEnded := False, calls := calls st @ [OnRestart]\<rparr>"

definition handlePlay :: "real \<Rightarrow> real \<Rightarrow> preview \<Rightarrow> preview" where
  "handlePlay currentTime duration st =
     (let st1 = (if videoEnded st \<or> currentTime \<ge> duration - 0.1 then handleRestart st else st)
      in st1\<lparr>calls := calls st1 @ [OnPlay]\<rparr>)"

text \<open>
  A render in which of the dependencies only \<open>currentTime\<close> has changed: the effects that
  list it run, in the order of the source.
\<close>

definition onCurrentTimeChange ::
  "(string \<Rightarrow> bool) \<Rightarrow> bool \<Rightarrow> element list \<Rightarrow> bool \<Rightarrow> real \<Rightarrow> real \<Rightarrow> preview \<Rightarrow> preview" where
  "onCurrentTimeChange audioPlayable videoPlayable elements isPlaying currentTime duration st =
     syncVideoTime currentTime
       (playPauseEffect videoPlayable isPlaying currentTime duration
          (syncAudioTime currentTime
             (reconcileAudio audioPlayable elements currentTime isPlaying st)))"

text \<open>The state of a freshly mounted preview with no players yet.\<close>

definition initialPreview :: "real \<Rightarrow> preview" where
  "initialPreview currentTime =
     \<lparr>volume = 100, isMuted = False, videoEnded = False, isBuffering = False,
      videoRef = None, audioRefs = [], activeAudioElementsRef = [],
      lastTimeRef = currentTime, timeUpdateBlocker = False,
      calls = [], console_errors = [], released = [], timers = [], now = 0\<rparr>"

section \<open>Example inputs\<close>

text \<open>
  A timeline with two overlapping audio clips, two overlapping videos and a text element,
  used to instantiate the theorems below.
\<close>

definition exampleElements :: "element list" where
  "exampleElements =
     [\<lparr>el_id = ''a1'', el_type = Audio, el_start = 0, el_end = 5,
        el_content = \<lparr>content_src = ''a1.mp3'', content_crop = None,
                       content_volume = None, content_muted = None\<rparr>\<rparr>,
      \<lparr>el_id = ''v1'', el_type = Video, el_start = 0, el_end = 10,
        el_content = \<lparr>content_src = ''v1.mp4'',
                       content_crop = Some \<lparr>crop_x = 10, crop_y = 5,
                                               crop_width = 60, crop_height = 70\<rparr>,
                       content_volume = None, content_muted = None\<rparr>\<rparr>,
      \<lparr>el_id = ''a2'', el_type = Audio, el_start = 3, el_end = 8,
        el_content = \<lparr>content_src = ''a2.mp3'', content_crop = None,
                       content_volume = Some 0.5, content_muted = Some True\<rparr>\<rparr>,
      \<lparr>el_id = ''v2'', el_type = Video, el_start = 2, el_end = 6,
        el_content = \<lparr>content_src = ''v2.mp4'', content_crop = None,
                       content_volume = None, content_muted = None\<rparr>\<rparr>,
      \<lparr>el_id = ''t1'', el_type = Text, el_start = 0, el_end = 10,
        el_content = \<lparr>content_src = [], content_crop = None,
                       content_volume = None, content_muted = None\<rparr>\<rparr>]"

text \<open>The preview paused at time 4 with a player for each of the two active clips.\<close>

definition examplePreview :: preview where
  "examplePreview =
     (initialPreview 4)
       \<lparr>audioRefs :=
          [(''a1'', \<lparr>player_src = ''a1.mp3'', player_currentTime = 4, player_volume = 1,
                     player_muted = False, player_paused = True\<rparr>),
           (''a2'', \<lparr>player_src = ''a2.mp3'', player_currentTime = 1, player_volume = 0.5,
                     player_muted = False, player_paused = True\<rparr>)],
        activeAudioElementsRef := [exampleElements ! 0, exampleElements ! 2]\<rparr>"

text \<open>A preview whose mute button is on and that has no players yet.\<close>

definition mutedPreview :: preview where
  "mutedPreview = (initialPreview 0)\<lparr>isMuted := True\<rparr>"

text \<open>A preview with a paused video player at position 0.\<close>

definition videoPreview :: preview where
  "videoPreview =
     (initialPreview 0)
       \<lparr>videoRef := Some \<lparr>video_currentTime = 0, video_volume = 1,
                            video_muted = False, video_paused = True\<rparr>\<rparr>"

text \<open>A preview whose video of ten seconds has played to its end.\<close>

definition endedPreview :: preview where
  "endedPreview =
     (initialPreview 10)
       \<lparr>videoEnded := True,
        videoRef := Some \<lparr>video_currentTime = 10, video_volume = 1,
                            video_muted = False, video_paused = True\<rparr>\<rparr>"

text \<open>The same video after the user has scrubbed back to 3 s.\<close>

definition scrubbedBackPreview :: preview where
  "scrubbedBackPreview =
     (initialPreview 3)
       \<lparr>videoEnded := True,
        videoRef := Some \<lparr>video_currentTime = 3, video_volume = 1,
                            video_muted = False, video_paused = True\<rparr>\<rparr>"

section \<open>Theorems: active-element selection\<close>

text \<open>
  Claim C1. The selector returns at most one video element: the first element of the list,
  in list order, that has type video and whose closed window contains the current time, or
  none when no element qualifies. With it, it returns exactly the set of the audio elements
  whose closed window contains the current time, so no audio element outside its window is
  returned. Both are functions of the element list and the current time alone.
\<close>

theorem selector_correct:
  "(case videoElement els t of
      None \<Rightarrow> \<forall>e \<in> set els. \<not> (el_type e = Video \<and> el_start e \<le> t \<and> t \<le> el_end e)
    | Some v \<Rightarrow>
        \<exists>i < length els. els ! i = v \<and> el_type v = Video \<and> el_start v \<le> t \<and> t \<le> el_end v \<and>
          (\<forall>j < i. \<not> (el_type (els ! j) = Video \<and> el_start (els ! j) \<le> t \<and> t \<le> el_end (els ! j))))
   \<and> set (activeAudioElements els t) =
       {e \<in> set els. el_type e = Audio \<and> el_start e \<le> t \<and> t \<le> el_end e}
   \<and> (\<forall>a \<in> set (activeAudioElements els t). el_start a \<le> t \<and> t \<le> el_end a)"
proof -
  have video: "case videoElement els t of
      None \<Rightarrow> \<forall>e \<in> set els. \<not> (el_type e = Video \<and> el_start e \<le> t \<and> t \<le> el_end e)
    | Some v \<Rightarrow>
        \<exists>i < length els. els ! i = v \<and> el_type v = Video \<and> el_start v \<le> t \<and> t \<le> el_end v \<and>
          (\<forall>j < i. \<not> (el_type (els ! j) = Video \<and> el_start (els ! j) \<le> t \<and> t \<le> el_end (els ! j)))"
  proof (cases "videoElement els t")
    case None
    then have "\<forall>e \<in> set els. \<not> (el_type e = Video \<and> inWindow t e)"
      unfolding videoElement_def find_None_iff by blast
    then show ?thesis
      using None by (simp add: inWindow_def)
  next
    case (Some v)
    then obtain i where "i < length els" "els ! i = v"
        "el_type v = Video \<and> inWindow t v"
        "\<forall>j < i. \<not> (el_type (els ! j) = Video \<and> inWindow t (els ! j))"
      unfolding videoElement_def find_Some_iff by blast
    then have "\<exists>i < length els. els ! i = v \<and> el_type v = Video \<and> el_start v \<le> t \<and> t \<le> el_end v \<and>
          (\<forall>j < i. \<not> (el_type (els ! j) = Video \<and> el_start (els ! j) \<le> t \<and> t \<le> el_end (els ! j)))"
      unfolding inWindow_def by blast
    then show ?thesis
      using Some by simp
  qed
  have audio: "set (activeAudioElements els t) =
       {e \<in> set els. el_type e = Audio \<and> el_start e \<le> t \<and> t \<le> el_end e}"
    by (auto simp: activeAudioElements_def inWindow_def)
  from video audio show ?thesis by simp
qed

text \<open>
  At time 4 both videos of the example are in their window and the first one is chosen;
  both audio clips are active.
\<close>

theorem selector_correct_witness:
  "videoElement exampleElements 4 = Some (exampleElements ! 1)
   \<and> activeAudioElements exampleElements 4 = [exampleElements ! 0, exampleElements ! 2]
   \<and> (\<exists>i < length exampleElements. exampleElements ! i = exampleElements ! 1)
   \<and> set (activeAudioElements exampleElements 4) =
       {e \<in> set exampleElements. el_type e = Audio \<and> el_start e \<le> 4 \<and> 4 \<le> el_end e}"
proof -
  have v: "videoElement exampleElements 4 = Some (exampleElements ! 1)"
    by (simp add: exampleElements_def videoElement_def inWindow_def)
  have a: "activeAudioElements exampleElements 4 = [exampleElements ! 0, exampleElements ! 2]"
    by (simp add: exampleElements_def activeAudioElements_def inWindow_def)
  have l: "\<exists>i < length exampleElements. exampleElements ! i = exampleElements ! 1"
    by (rule exI [of _ 1]) (simp add: exampleElements_def)
  from v a l selector_correct [of exampleElements 4] show ?thesis
    by blast
qed

section \<open>Theorems: the crop tool\<close>

subsection \<open>The offered ratios\<close>

lemma set_opts: "set aspectRatioOptions = {
      \<lparr>opt_id = ''freeform'', opt_name = ''Freeform'', opt_value = None\<rparr>,
      \<lparr>opt_id = ''1:1'', opt_name = ''1:1'', opt_value = Some 1\<rparr>,
      \<lparr>opt_id = ''16:9'', opt_name = ''16:9'', opt_value = Some (16 / 9)\<rparr>,
      \<lparr>opt_id = ''9:16'', opt_name = ''9:16'', opt_value = Some (9 / 16)\<rparr>,
      \<lparr>opt_id = ''5:4'', opt_name = ''5:4'', opt_value = Some (5 / 4)\<rparr>,
      \<lparr>opt_id = ''4:5'', opt_name = ''4:5'', opt_value = Some (4 / 5)\<rparr>,
      \<lparr>opt_id = ''4:3'', opt_name = ''4:3'', opt_value = Some (4 / 3)\<rparr>,
      \<lparr>opt_id = ''3:4'', opt_name = ''3:4'', opt_value = Some (3 / 4)\<rparr>,
      \<lparr>opt_id = ''3:2'', opt_name = ''3:2'', opt_value = Some (3 / 2)\<rparr>}"
  unfolding aspectRatioOptions_def by (simp only: list.set)

lemma offered_ratio_cases:
  assumes "opt \<in> set aspectRatioOptions" "opt_value opt = Some r"
  shows "r \<in> {1, 16 / 9, 9 / 16, 5 / 4, 4 / 5, 4 / 3, 3 / 4, 3 / 2}"
proof -
  from assms(1) have "opt_value opt \<in> {None, Some 1, Some (16 / 9), Some (9 / 16), Some (5 / 4), Some (4 / 5),
      Some (4 / 3), Some (3 / 4), Some (3 / 2)}"
    unfolding set_opts by (elim insertE emptyE) simp_all
  with assms(2) show ?thesis by simp
qed

lemma find_offered_ratio:
  assumes "opt \<in> set aspectRatioOptions"
  shows "List.find (\<lambda>option. opt_id option = opt_id opt) aspectRatioOptions = Some opt"
  using assms unfolding set_opts
  by (elim insertE emptyE) (simp_all add: aspectRatioOptions_def)

lemma find_in_set: "List.find P xs = Some x \<Longrightarrow> x \<in> set xs"
  by (auto simp: find_Some_iff)

lemma lockedRatio_offered:
  assumes "lockedRatio st = Some r"
  shows "r \<in> {1, 16 / 9, 9 / 16, 5 / 4, 4 / 5, 4 / 3, 3 / 4, 3 / 2}"
proof -
  from assms obtain s ratio where
      "List.find (\<lambda>opt. opt_id opt = s) aspectRatioOptions = Some ratio" "opt_value ratio = Some r"
    unfolding lockedRatio_def by (auto split: option.splits if_splits)
  then show ?thesis
    by (intro offered_ratio_cases [of ratio r] find_in_set)
qed

lemma lockedRatio_pos: "lockedRatio st = Some r \<Longrightarrow> 0 < r"
proof -
  assume "lockedRatio st = Some r"
  then have "r \<in> {1, 16 / 9, 9 / 16, 5 / 4, 4 / 5, 4 / 3, 3 / 4, 3 / 2}"
    by (rule lockedRatio_offered)
  then show ?thesis
    by (elim insertE emptyE) simp_all
qed

lemma handleAspectRatioChange_offered:
  assumes "opt \<in> set aspectRatioOptions" "opt_value opt = Some r"
  shows "handleAspectRatioChange (opt_id opt) st =
     (let newWidth' = (if cropWidth st / r > 100 then 100 * r else cropWidth st);
          newHeight' = (if cropWidth st / r > 100 then 100 else cropWidth st / r)
      in st\<lparr>selectedAspectRatio := Some (opt_id opt), cropWidth := newWidth', cropHeight := newHeight',
             previewCrop := Some \<lparr>crop_x = cropX st, crop_y = cropY st,
                                   crop_width = newWidth', crop_height = newHeight'\<rparr>\<rparr>)"
  unfolding handleAspectRatioChange_def find_offered_ratio [OF assms(1)]
  by (simp add: assms(2) Let_def)

lemma lockedRatio_16_9: "lockedRatio (initialCropTool\<lparr>selectedAspectRatio := Some ''16:9''\<rparr>) = Some (16 / 9)"
  by (simp add: lockedRatio_def initialCropTool_def aspectRatioOptions_def)

subsection \<open>Editing a size under a locked ratio\<close>

text \<open>
  Claim C5, as stated, has the derived dimension clamped to the range from 20 to 100. The
  slider handlers have no clamp from below, and neither has any other handler of the tool:
  with the ratio 16:9 locked, a width of 20 gives the height 11.25.
\<close>

theorem ratio_edit_counterexample:
  "lockedRatio (initialCropTool\<lparr>selectedAspectRatio := Some ''16:9''\<rparr>) = Some (16 / 9)
   \<and> cropHeight (onWidthChange 20 (initialCropTool\<lparr>selectedAspectRatio := Some ''16:9''\<rparr>)) = 45 / 4
   \<and> cropHeight (onWidthChange 20 (initialCropTool\<lparr>selectedAspectRatio := Some ''16:9''\<rparr>)) < 20"
  by (simp add: onWidthChange_def lockedRatio_16_9)

text \<open>
  Claim C5, amended. After a width edit to a slider value \<open>v\<close> between 20 and 100 under a
  locked ratio \<open>r\<close>, where \<open>v / r\<close> does not exceed 100, the resolver sets the width to
  \<open>v\<close> and the height to \<open>v / r\<close>, with no clamp from below; after a height edit where
  \<open>v * r\<close> does not exceed 100 it sets the height to \<open>v\<close> and the width to \<open>v * r\<close>.
  Consequently width divided by height equals \<open>r\<close> (within floating tolerance in the
  program, exactly over the reals), the edited dimension lies between 20 and 100, and the
  derived dimension lies between 11.25 and 100; it is at least 20 whenever it is so before
  any clamp, that is when \<open>20 * r \<le> v\<close> for a width edit and \<open>20 \<le> v * r\<close> for a height
  edit.
\<close>

theorem ratio_edit_keeps_ratio:
  assumes "lockedRatio st = Some r" "20 \<le> v" "v \<le> 100"
  shows "(v / r \<le> 100 \<longrightarrow>
            cropWidth (onWidthChange v st) = v
            \<and> cropHeight (onWidthChange v st) = v / r
            \<and> cropWidth (onWidthChange v st) / cropHeight (onWidthChange v st) = r
            \<and> 20 \<le> cropWidth (onWidthChange v st) \<and> cropWidth (onWidthChange v st) \<le> 100
            \<and> 45 / 4 \<le> cropHeight (onWidthChange v st)
            \<and> cropHeight (onWidthChange v st) \<le> 100
            \<and> (20 * r \<le> v \<longrightarrow> 20 \<le> cropHeight (onWidthChange v st)))
     \<and> (v * r \<le> 100 \<longrightarrow>
            cropHeight (onHeightChange v st) = v
            \<and> cropWidth (onHeightChange v st) = v * r
            \<and> cropWidth (onHeightChange v st) / cropHeight (onHeightChange v st) = r
            \<and> 20 \<le> cropHeight (onHeightChange v st) \<and> cropHeight (onHeightChange v st) \<le> 100
            \<and> 45 / 4 \<le> cropWidth (onHeightChange v st)
            \<and> cropWidth (onHeightChange v st) \<le> 100
            \<and> (20 \<le> v * r \<longrightarrow> 20 \<le> cropWidth (onHeightChange v st)))"
proof -
  have r: "r \<in> {1, 16 / 9, 9 / 16, 5 / 4, 4 / 5, 4 / 3, 3 / 4, 3 / 2}"
    using assms(1) by (rule lockedRatio_offered)
  have w: "onWidthChange v st = st\<lparr>cropWidth := v, cropHeight := v / r\<rparr>"
    by (simp add: onWidthChange_def assms(1))
  have h: "onHeightChange v st = st\<lparr>cropHeight := v, cropWidth := v * r\<rparr>"
    by (simp add: onHeightChange_def assms(1))
  have size: "(v / r \<le> 100 \<longrightarrow>
        v / (v / r) = r \<and> 45 / 4 \<le> v / r \<and> (20 * r \<le> v \<longrightarrow> 20 \<le> v / r))
      \<and> (v * r \<le> 100 \<longrightarrow> v * r / v = r \<and> 45 / 4 \<le> v * r)"
    using r assms(2,3) by (elim insertE emptyE; hypsubst; simp)
  show ?thesis
    unfolding w h using size assms(2,3) by simp
qed

text \<open>The scenario of the specification: ratio 16:9, width edited to 80, height 45.\<close>

theorem ratio_edit_keeps_ratio_witness:
  "cropWidth (onWidthChange 80 (initialCropTool\<lparr>selectedAspectRatio := Some ''16:9''\<rparr>)) = 80
   \<and> cropHeight (onWidthChange 80 (initialCropTool\<lparr>selectedAspectRatio := Some ''16:9''\<rparr>)) = 45
   \<and> cropWidth (onHeightChange 45 (initialCropTool\<lparr>selectedAspectRatio := Some ''16:9''\<rparr>)) = 80
   \<and> cropHeight (onHeightChange 45 (initialCropTool\<lparr>selectedAspectRatio := Some ''16:9''\<rparr>)) = 45"
proof -
  have b: "(20::real) \<le> 80" "(80::real) \<le> 100" "(20::real) \<le> 45" "(45::real) \<le> 100"
    by simp_all
  have d: "(80::real) / (16 / 9) \<le> 100" "(45::real) * (16 / 9) \<le> 100"
    by simp_all
  from ratio_edit_keeps_ratio [OF lockedRatio_16_9 b(1,2)] d(1)
  have width: "cropWidth (onWidthChange 80 (initialCropTool\<lparr>selectedAspectRatio := Some ''16:9''\<rparr>)) = 80
      \<and> cropHeight (onWidthChange 80 (initialCropTool\<lparr>selectedAspectRatio := Some ''16:9''\<rparr>)) = 80 / (16 / 9)"
    by blast
  from ratio_edit_keeps_ratio [OF lockedRatio_16_9 b(3,4)] d(2)
  have height: "cropHeight (onHeightChange 45 (initialCropTool\<lparr>selectedAspectRatio := Some ''16:9''\<rparr>)) = 45
      \<and> cropWidth (onHeightChange 45 (initialCropTool\<lparr>selectedAspectRatio := Some ''16:9''\<rparr>)) = 45 * (16 / 9)"
    by blast
  from width height show ?thesis
    by simp
qed

text \<open>
  The amended claim is silent on an edit whose derived dimension would exceed 100. There
  the slider handlers store the value as derived, where the handler of the ratio buttons
  caps the height at 100: with 16:9 locked, a height of 100 gives the width 177.8.
\<close>

lemma ratio_edit_exceeds_upper:
  "cropWidth (onHeightChange 100 (initialCropTool\<lparr>selectedAspectRatio := Some ''16:9''\<rparr>))
     = 1600 / 9
   \<and> 100 < cropWidth (onHeightChange 100 (initialCropTool\<lparr>selectedAspectRatio := Some ''16:9''\<rparr>))"
  by (simp add: onHeightChange_def lockedRatio_16_9)

subsection \<open>Selecting a ratio\<close>

text \<open>
  Claim C6, as stated, promises a height of at least 20 after a ratio is selected. The
  handler guards the upper bound only: from a width of 20, selecting 16:9 gives the height
  11.25.
\<close>

theorem ratio_selection_counterexample:
  "cropHeight (handleAspectRatioChange ''16:9'' (initialCropTool\<lparr>cropWidth := 20\<rparr>)) = 45 / 4
   \<and> cropHeight (handleAspectRatioChange ''16:9'' (initialCropTool\<lparr>cropWidth := 20\<rparr>)) < 20"
  by (simp add: handleAspectRatioChange_def aspectRatioOptions_def initialCropTool_def Let_def)

text \<open>
  Claim C6, amended. When an offered ratio \<open>r\<close> is selected, the height becomes the
  current width divided by \<open>r\<close>; if that exceeds 100, the height becomes 100 and the width
  \<open>100 * r\<close>. From a rectangle with x and y between 0 and 50 and a width between 20 and
  100, the result keeps x and y, has a width between 20 and 100 and a height between 11.25
  and 100, with width divided by height equal to \<open>r\<close>; the height is at least 20 whenever
  the starting width is at least \<open>20 * r\<close>.
\<close>

theorem ratio_selection_bounds:
  assumes "0 \<le> cropX st" "cropX st \<le> 50" "0 \<le> cropY st" "cropY st \<le> 50"
      and "20 \<le> cropWidth st" "cropWidth st \<le> 100"
      and "opt \<in> set aspectRatioOptions" "opt_value opt = Some r"
      and "st' = handleAspectRatioChange (opt_id opt) st"
  shows "selectedAspectRatio st' = Some (opt_id opt)
     \<and> cropX st' = cropX st \<and> cropY st' = cropY st
     \<and> (if cropWidth st / r > 100
         then cropHeight st' = 100 \<and> cropWidth st' = 100 * r
         else cropHeight st' = cropWidth st / r \<and> cropWidth st' = cropWidth st)
     \<and> 0 \<le> cropX st' \<and> cropX st' \<le> 50 \<and> 0 \<le> cropY st' \<and> cropY st' \<le> 50
     \<and> 20 \<le> cropWidth st' \<and> cropWidth st' \<le> 100
     \<and> 45 / 4 \<le> cropHeight st' \<and> cropHeight st' \<le> 100
     \<and> cropWidth st' / cropHeight st' = r
     \<and> (20 * r \<le> cropWidth st \<longrightarrow> 20 \<le> cropHeight st')"
proof -
  have r: "r \<in> {1, 16 / 9, 9 / 16, 5 / 4, 4 / 5, 4 / 3, 3 / 4, 3 / 2}"
    using assms(7,8) by (rule offered_ratio_cases)
  define w where "w = cropWidth st"
  have w: "20 \<le> w" "w \<le> 100"
    using assms(5,6) by (simp_all add: w_def)
  have st': "st' = st\<lparr>selectedAspectRatio := Some (opt_id opt),
        cropWidth := (if w / r > 100 then 100 * r else w),
        cropHeight := (if w / r > 100 then 100 else w / r),
        previewCrop := Some \<lparr>crop_x = cropX st, crop_y = cropY st,
          crop_width = (if w / r > 100 then 100 * r else w),
          crop_height = (if w / r > 100 then 100 else w / r)\<rparr>\<rparr>"
    unfolding assms(9) handleAspectRatioChange_offered [OF assms(7,8)] w_def
    by (simp add: Let_def)
  have size: "20 \<le> (if w / r > 100 then 100 * r else w)
      \<and> (if w / r > 100 then 100 * r else w) \<le> 100
      \<and> 45 / 4 \<le> (if w / r > 100 then 100 else w / r)
      \<and> (if w / r > 100 then 100 else w / r) \<le> 100
      \<and> (if w / r > 100 then 100 * r else w) / (if w / r > 100 then 100 else w / r) = r
      \<and> (20 * r \<le> w \<longrightarrow> 20 \<le> (if w / r > 100 then 100 else w / r))"
    using r w by (elim insertE emptyE; hypsubst; simp)
  show ?thesis
    using size assms(1-4) unfolding st' by (simp add: w_def)
qed

text \<open>From the full frame, 9:16 takes the inverted branch: height 100, width 56.25.\<close>

theorem ratio_selection_bounds_witness:
  "cropWidth (handleAspectRatioChange ''9:16'' initialCropTool) = 225 / 4
   \<and> cropHeight (handleAspectRatioChange ''9:16'' initialCropTool) = 100
   \<and> cropX (handleAspectRatioChange ''9:16'' initialCropTool) = 0"
proof -
  let ?opt = "\<lparr>opt_id = ''9:16'', opt_name = ''9:16'', opt_value = Some (9 / 16 :: real)\<rparr>"
  have m: "?opt \<in> set aspectRatioOptions" by (simp add: aspectRatioOptions_def)
  have b: "0 \<le> cropX initialCropTool" "cropX initialCropTool \<le> 50"
    "0 \<le> cropY initialCropTool" "cropY initialCropTool \<le> 50"
    "20 \<le> cropWidth initialCropTool" "cropWidth initialCropTool \<le> 100"
    by (simp_all add: initialCropTool_def)
  have c: "cropWidth initialCropTool = 100" "cropX initialCropTool = 0" by (simp_all add: initialCropTool_def)
  from ratio_selection_bounds [OF b m, of "9 / 16", OF _ refl] c show ?thesis
    by simp
qed

subsection \<open>Applying and resetting\<close>

text \<open>The Done handler rejects an element that is neither a video nor an image.\<close>

lemma handleApplyCrop_rejects:
  assumes "selectedElement els sid = Some el" "el_type el \<noteq> Video" "el_type el \<noteq> Image"
  shows "handleApplyCrop els sid st =
           (st, [ToastError ''Cropping is only available for video and image elements''])"
proof -
  from assms(1) obtain i where "sid = Some i"
    by (cases sid) (simp_all add: selectedElement_def)
  then show ?thesis
    using assms by (simp add: handleApplyCrop_def)
qed

text \<open>
  Claim C9. For a selected element that is neither a video nor an image, applying a crop is
  rejected with a notice, the state stays as it is, and \<open>onCropApply\<close> is never invoked with
  the id of that element. The Done handler does so; the debounced effect does not test the
  type. With the text element of the example selected after the video, the handler
  answers with the notice, and the timer of the debounced effect hands the crop of the video
  to \<open>onCropApply\<close> under the id of the text element.
\<close>

theorem text_element_crop_applied:
  "selectedElement exampleElements (Some ''t1'') = Some (exampleElements ! 4)
   \<and> el_type (exampleElements ! 4) = Text
   \<and> handleApplyCrop exampleElements (Some ''t1'')
        (onSelectedElementChange exampleElements (Some ''t1'')
           (onSelectedElementChange exampleElements (Some ''v1'') initialCropTool))
      = (onSelectedElementChange exampleElements (Some ''v1'') initialCropTool,
         [ToastError ''Cropping is only available for video and image elements''])
   \<and> debouncedCropApply (Some ''t1'')
        (onSelectedElementChange exampleElements (Some ''t1'')
           (onSelectedElementChange exampleElements (Some ''v1'') initialCropTool))
      = [OnCropApply ''t1'' \<lparr>crop_x = 10, crop_y = 5, crop_width = 60, crop_height = 70\<rparr>]"
proof -
  have sel: "selectedElement exampleElements (Some ''t1'') = Some (exampleElements ! 4)"
    by (simp add: selectedElement_def exampleElements_def)
  have ty: "el_type (exampleElements ! 4) = Text"
    by (simp add: exampleElements_def)
  have v1: "onSelectedElementChange exampleElements (Some ''v1'') initialCropTool =
      \<lparr>cropX = 10, cropY = 5, cropWidth = 60, cropHeight = 70,
       previewCrop = Some \<lparr>crop_x = 10, crop_y = 5, crop_width = 60, crop_height = 70\<rparr>,
       selectedAspectRatio = Some ''freeform''\<rparr>"
    by (simp add: onSelectedElementChange_def selectedElement_def exampleElements_def
        croppable_def)
  have t1: "onSelectedElementChange exampleElements (Some ''t1'') st = st" for st
    by (simp add: onSelectedElementChange_def sel ty croppable_def)
  have rej: "handleApplyCrop exampleElements (Some ''t1'') st =
      (st, [ToastError ''Cropping is only available for video and image elements''])" for st
    by (rule handleApplyCrop_rejects [OF sel]) (simp_all add: ty)
  have deb: "debouncedCropApply (Some ''t1'') st = [OnCropApply ''t1'' (currentCrop st)]" for st
    by (simp add: debouncedCropApply_def)
  show ?thesis
    unfolding t1 rej deb using sel ty by (simp add: v1 currentCrop_def)
qed

text \<open>
  Claim C10. Cancel and the reset control do not restore the stored crop of the element:
  for every selected element the handler sets the working crop to the full frame, x 0, y 0,
  width 100, height 100, sets the ratio choice to freeform, and commits the full frame to
  the element through \<open>onCropApply\<close> at once.
\<close>

theorem reset_commits_full_frame:
  assumes "selectedElementId = Some i" "i \<noteq> []"
  shows "handleResetCrop selectedElementId st =
           (st\<lparr>cropX := 0, cropY := 0, cropWidth := 100, cropHeight := 100,
               selectedAspectRatio := Some ''freeform'', previewCrop := Some defaultCrop\<rparr>,
            [OnCropApply i defaultCrop])
     \<and> currentCrop (fst (handleResetCrop selectedElementId st)) = defaultCrop
     \<and> selectedAspectRatio (fst (handleResetCrop selectedElementId st)) = Some ''freeform''
     \<and> defaultCrop = \<lparr>crop_x = 0, crop_y = 0, crop_width = 100, crop_height = 100\<rparr>"
  using assms by (simp add: handleResetCrop_def currentCrop_def defaultCrop_def)

text \<open>
  The video of the example carries the stored crop (10, 5, 60, 70), which selecting it
  loads into the tool; the reset commits the full frame all the same.
\<close>

theorem reset_commits_full_frame_witness:
  "content_crop (el_content (exampleElements ! 1)) =
       Some \<lparr>crop_x = 10, crop_y = 5, crop_width = 60, crop_height = 70\<rparr>
   \<and> snd (handleResetCrop (Some ''v1'')
             (onSelectedElementChange exampleElements (Some ''v1'') initialCropTool))
      = [OnCropApply ''v1'' \<lparr>crop_x = 0, crop_y = 0, crop_width = 100, crop_height = 100\<rparr>]
   \<and> currentCrop (fst (handleResetCrop (Some ''v1'')
             (onSelectedElementChange exampleElements (Some ''v1'') initialCropTool)))
      = \<lparr>crop_x = 0, crop_y = 0, crop_width = 100, crop_height = 100\<rparr>"
proof -
  have stored: "content_crop (el_content (exampleElements ! 1)) =
       Some \<lparr>crop_x = 10, crop_y = 5, crop_width = 60, crop_height = 70\<rparr>"
    by (simp add: exampleElements_def)
  have ne: "''v1'' \<noteq> []" by simp
  note r = reset_commits_full_frame [OF refl ne,
      of "onSelectedElementChange exampleElements (Some ''v1'') initialCropTool"]
  from r have calls: "snd (handleResetCrop (Some ''v1'')
      (onSelectedElementChange exampleElements (Some ''v1'') initialCropTool))
      = [OnCropApply ''v1'' defaultCrop]"
    by simp
  from r have cur: "currentCrop (fst (handleResetCrop (Some ''v1'')
      (onSelectedElementChange exampleElements (Some ''v1'') initialCropTool))) = defaultCrop"
    by (elim conjE)
  from r have full: "defaultCrop = \<lparr>crop_x = 0, crop_y = 0, crop_width = 100, crop_height = 100\<rparr>"
    by (elim conjE)
  show ?thesis
    unfolding calls cur using stored full by simp
qed

section \<open>Theorems: the audio players\<close>

subsection \<open>Creating a player\<close>

text \<open>
  What the reconciliation effect stores for an active clip that has no player yet: the
  source, the local time, the volume of the clip or else of the preview, not muted, and
  playing exactly when the timeline plays and the browser lets the source start. A refused
  start is reported and the player stays in \<open>audioRefs.current\<close>.
\<close>

lemma createAudio_new:
  assumes "map_of (audioRefs st) (el_id audio) = None"
  shows "map_of (audioRefs (createAudio playable ct playing audio st)) (el_id audio) =
           Some \<lparr>player_src = content_src (el_content audio),
                  player_currentTime = max 0 (ct - el_start audio),
                  player_volume = (case content_volume (el_content audio) of
                                     Some v \<Rightarrow> v | None \<Rightarrow> volume st / 100),
                  player_muted = False,
                  player_paused = (\<not> (playing \<and> playable (content_src (el_content audio))))\<rparr>"
    and "console_errors (createAudio playable ct playing audio st) =
           console_errors st @
             (if playing \<and> \<not> playable (content_src (el_content audio))
              then [AudioPlayError (el_id audio)] else [])"
  using assms
  by (simp_all add: createAudio_def playAudio_def newAudio_def Let_def AList.update_conv')

text \<open>
  Claim C2. A player created for a newly active clip is bound to the source of the clip,
  sought to the local time, given the volume of the clip or else the volume of the preview
  over 100, muted when the preview or the clip is muted, and started when the timeline
  plays. The effect sets \<open>muted\<close> to false instead and does not read \<open>isMuted\<close>: in the
  muted preview, a change of the current time to 4 while playing creates both players of
  the example unmuted and playing, although the preview is muted and the second clip is
  muted itself. The volume effect, had it run, would have muted both.
\<close>

theorem new_session_ignores_mute:
  "isMuted mutedPreview
   \<and> content_muted (el_content (exampleElements ! 2)) = Some True
   \<and> audioRefs (onCurrentTimeChange (\<lambda>_. True) True exampleElements True 4 10 mutedPreview) =
       [(''a1'', \<lparr>player_src = ''a1.mp3'', player_currentTime = 4, player_volume = 1,
                  player_muted = False, player_paused = False\<rparr>),
        (''a2'', \<lparr>player_src = ''a2.mp3'', player_currentTime = 1, player_volume = 0.5,
                  player_muted = False, player_paused = False\<rparr>)]
   \<and> finalMuted (exampleElements ! 0) mutedPreview
   \<and> finalMuted (exampleElements ! 2) mutedPreview
   \<and> audioRefs (applyAudioVolume
        (onCurrentTimeChange (\<lambda>_. True) True exampleElements True 4 10 mutedPreview)) =
       [(''a1'', \<lparr>player_src = ''a1.mp3'', player_currentTime = 4, player_volume = 1,
                  player_muted = True, player_paused = False\<rparr>),
        (''a2'', \<lparr>player_src = ''a2.mp3'', player_currentTime = 1, player_volume = 0.5,
                  player_muted = True, player_paused = False\<rparr>)]"
proof -
  define a1 where "a1 = exampleElements ! 0"
  define a2 where "a2 = exampleElements ! 2"
  have a1: "el_id a1 = ''a1''" "el_start a1 = 0"
      "el_content a1 = \<lparr>content_src = ''a1.mp3'', content_crop = None,
                        content_volume = None, content_muted = None\<rparr>"
    by (simp_all add: a1_def exampleElements_def)
  have a2: "el_id a2 = ''a2''" "el_start a2 = 3"
      "el_content a2 = \<lparr>content_src = ''a2.mp3'', content_crop = None,
                        content_volume = Some 0.5, content_muted = Some True\<rparr>"
    by (simp_all add: a2_def exampleElements_def)
  have active: "activeAudioElements exampleElements 4 = [a1, a2]"
    by (simp add: activeAudioElements_def exampleElements_def inWindow_def a1_def a2_def)
  define st2 where "st2 = mutedPreview
      \<lparr>audioRefs :=
         [(''a1'', \<lparr>player_src = ''a1.mp3'', player_currentTime = 4, player_volume = 1,
                    player_muted = False, player_paused = False\<rparr>),
          (''a2'', \<lparr>player_src = ''a2.mp3'', player_currentTime = 1, player_volume = 0.5,
                    player_muted = False, player_paused = False\<rparr>)],
       activeAudioElementsRef := [a1, a2]\<rparr>"
  have rec: "reconcileAudio (\<lambda>_. True) exampleElements 4 True mutedPreview = st2"
    unfolding reconcileAudio_def active
    by (simp add: st2_def Let_def createAudio_def playAudio_def newAudio_def removeInactive_def
        a1 a2 mutedPreview_def initialPreview_def)
  have sync: "syncAudioTime 4 st2 = st2\<lparr>lastTimeRef := 4\<rparr>"
    by (simp add: syncAudioTime_def syncOneAudio_def st2_def Let_def a1 a2 mutedPreview_def
        initialPreview_def)
  have novideo: "videoRef (st2\<lparr>lastTimeRef := 4\<rparr>) = None"
    by (simp add: st2_def mutedPreview_def initialPreview_def)
  have commit: "onCurrentTimeChange (\<lambda>_. True) True exampleElements True 4 10 mutedPreview =
      st2\<lparr>lastTimeRef := 4\<rparr>"
    by (simp add: onCurrentTimeChange_def rec sync playPauseEffect_def syncVideoTime_def novideo)
  have muted: "isMuted mutedPreview"
    by (simp add: mutedPreview_def)
  have fm: "finalMuted a1 mutedPreview" "finalMuted a2 mutedPreview"
    by (simp_all add: finalMuted_def muted)
  have vol: "audioRefs (applyAudioVolume (st2\<lparr>lastTimeRef := 4\<rparr>)) =
       [(''a1'', \<lparr>player_src = ''a1.mp3'', player_currentTime = 4, player_volume = 1,
                  player_muted = True, player_paused = False\<rparr>),
        (''a2'', \<lparr>player_src = ''a2.mp3'', player_currentTime = 1, player_volume = 0.5,
                  player_muted = True, player_paused = False\<rparr>)]"
    by (simp add: applyAudioVolume_def applyOneAudioVolume_def finalMuted_def finalVolume_def
        st2_def a1 a2 mutedPreview_def initialPreview_def)
  have cm: "content_muted (el_content (exampleElements ! 2)) = Some True"
    using a2(3) by (simp add: a2_def)
  show ?thesis
    unfolding commit vol using muted cm fm
    by (simp add: st2_def a1_def a2_def)
qed

subsection \<open>Time synchronisation\<close>

lemma map_of_syncOneAudio:
  "map_of (audioRefs (syncOneAudio ct a s)) k =
     (if k = el_id a
      then map_option
             (\<lambda>pl. if \<bar>player_currentTime pl - max 0 (ct - el_start a)\<bar> > 0.2
                   then pl\<lparr>player_currentTime := max 0 (ct - el_start a)\<rparr> else pl)
             (map_of (audioRefs s) k)
      else map_of (audioRefs s) k)"
  by (simp add: syncOneAudio_def Let_def AList.update_conv' split: option.split)

lemma map_of_fold_syncOneAudio_other:
  "k \<notin> el_id ` set as \<Longrightarrow>
     map_of (audioRefs (fold (syncOneAudio ct) as s)) k = map_of (audioRefs s) k"
  by (induction as arbitrary: s) (simp_all add: map_of_syncOneAudio)

lemma map_of_fold_syncOneAudio:
  assumes "distinct (map el_id as)" "a \<in> set as"
  shows "map_of (audioRefs (fold (syncOneAudio ct) as s)) (el_id a) =
     map_option
       (\<lambda>pl. if \<bar>player_currentTime pl - max 0 (ct - el_start a)\<bar> > 0.2
             then pl\<lparr>player_currentTime := max 0 (ct - el_start a)\<rparr> else pl)
       (map_of (audioRefs s) (el_id a))"
  using assms
proof (induction as arbitrary: s)
  case Nil
  then show ?case by simp
next
  case (Cons b bs)
  show ?case
  proof (cases "a = b")
    case True
    with Cons.prems have "el_id b \<notin> el_id ` set bs" by auto
    then show ?thesis
      unfolding True by (simp add: map_of_fold_syncOneAudio_other map_of_syncOneAudio)
  next
    case False
    with Cons.prems have in_bs: "a \<in> set bs" and d: "distinct (map el_id bs)"
      and nb: "el_id b \<notin> el_id ` set bs" by auto
    from in_bs nb have ne: "el_id a \<noteq> el_id b" by (metis imageI)
    show ?thesis
      using Cons.IH [OF d in_bs, of "syncOneAudio ct b s"] ne
      by (simp add: map_of_syncOneAudio)
  qed
qed

text \<open>
  Claim C3. On a tick, the player of an active audio clip is sought only if the current time
  differs from the last tick by more than 0.1 s and the position of the player differs from
  the local time, the larger of 0 and current time minus start, by more than 0.2 s; when
  both hold the player is sought to the local time, and otherwise it is left as it is. The
  tick is remembered, and players of clips that are not active are not touched. The ids of
  the active clips are taken to be distinct.
\<close>

theorem audio_seek_gated:
  assumes "distinct (map el_id (activeAudioElementsRef st))"
      and "a \<in> set (activeAudioElementsRef st)"
      and "map_of (audioRefs st) (el_id a) = Some pl"
  shows "map_of (audioRefs (syncAudioTime ct st)) (el_id a) =
           Some (if \<bar>ct - lastTimeRef st\<bar> > 0.1
                    \<and> \<bar>player_currentTime pl - max 0 (ct - el_start a)\<bar> > 0.2
                 then pl\<lparr>player_currentTime := max 0 (ct - el_start a)\<rparr>
                 else pl)
     \<and> lastTimeRef (syncAudioTime ct st) = ct
     \<and> (\<forall>k. k \<notin> el_id ` set (activeAudioElementsRef st) \<longrightarrow>
            map_of (audioRefs (syncAudioTime ct st)) k = map_of (audioRefs st) k)"
proof (cases "\<bar>ct - lastTimeRef st\<bar> > 0.1")
  case True
  then have eq: "syncAudioTime ct st =
      (fold (syncOneAudio ct) (activeAudioElementsRef st) st)\<lparr>lastTimeRef := ct\<rparr>"
    by (simp add: syncAudioTime_def)
  show ?thesis
    unfolding eq using True assms(3)
    by (simp add: map_of_fold_syncOneAudio [OF assms(1,2)] map_of_fold_syncOneAudio_other)
next
  case False
  then have eq: "syncAudioTime ct st = st\<lparr>lastTimeRef := ct\<rparr>"
    by (simp add: syncAudioTime_def)
  show ?thesis
    unfolding eq using False assms(3) by simp
qed

text \<open>
  A scrub from 4 to 4.5 moves the first player of the example from 4 to 4.5; an advance from
  4 to 4.05 leaves it at 4.
\<close>

theorem audio_seek_gated_witness:
  "map_of (audioRefs (syncAudioTime 4.5 examplePreview)) ''a1'' =
     Some \<lparr>player_src = ''a1.mp3'', player_currentTime = 4.5, player_volume = 1,
            player_muted = False, player_paused = True\<rparr>
   \<and> map_of (audioRefs (syncAudioTime 4.05 examplePreview)) ''a1'' =
     Some \<lparr>player_src = ''a1.mp3'', player_currentTime = 4, player_volume = 1,
            player_muted = False, player_paused = True\<rparr>
   \<and> lastTimeRef (syncAudioTime 4.5 examplePreview) = 4.5"
proof -
  let ?a = "exampleElements ! 0"
  let ?pl = "\<lparr>player_src = ''a1.mp3'', player_currentTime = 4, player_volume = 1,
              player_muted = False, player_paused = True\<rparr>"
  have d: "distinct (map el_id (activeAudioElementsRef examplePreview))"
    by (simp add: examplePreview_def initialPreview_def exampleElements_def)
  have m: "?a \<in> set (activeAudioElementsRef examplePreview)"
    by (simp add: examplePreview_def initialPreview_def)
  have i: "el_id ?a = ''a1''" "el_start ?a = 0"
    by (simp_all add: exampleElements_def)
  have l: "map_of (audioRefs examplePreview) (el_id ?a) = Some ?pl"
    by (simp add: i examplePreview_def initialPreview_def)
  have t: "lastTimeRef examplePreview = 4"
    by (simp add: examplePreview_def initialPreview_def)
  from audio_seek_gated [OF d m l, of "4.5"] audio_seek_gated [OF d m l, of "4.05"]
  show ?thesis
    by (simp add: i t)
qed

subsection \<open>Teardown\<close>

lemma released_createAudio [simp]:
  "released (createAudio playable ct playing a s) = released s"
  by (simp add: createAudio_def playAudio_def Let_def split: option.split)

lemma map_of_createAudio_keep:
  "map_of (audioRefs s) k = Some pl \<Longrightarrow>
     map_of (audioRefs (createAudio playable ct playing a s)) k = Some pl"
  by (cases "k = el_id a")
     (simp_all add: createAudio_def playAudio_def Let_def AList.update_conv' split: option.split)

lemma keys_createAudio:
  "fst ` set (audioRefs (createAudio playable ct playing a s))
     \<subseteq> insert (el_id a) (fst ` set (audioRefs s))"
  by (auto simp: createAudio_def playAudio_def Let_def AList.dom_update split: option.split)

lemma released_fold_createAudio [simp]:
  "released (fold (createAudio playable ct playing) as s) = released s"
  by (induction as arbitrary: s) simp_all

lemma map_of_fold_createAudio_keep:
  "map_of (audioRefs s) k = Some pl \<Longrightarrow>
     map_of (audioRefs (fold (createAudio playable ct playing) as s)) k = Some pl"
  by (induction as arbitrary: s) (simp_all add: map_of_createAudio_keep)

lemma keys_fold_createAudio:
  "fst ` set (audioRefs (fold (createAudio playable ct playing) as s))
     \<subseteq> el_id ` set as \<union> fst ` set (audioRefs s)"
proof (induction as arbitrary: s)
  case Nil
  then show ?case by simp
next
  case (Cons a as)
  have "fst ` set (audioRefs (fold (createAudio playable ct playing) as (createAudio playable ct playing a s)))
      \<subseteq> el_id ` set as \<union> fst ` set (audioRefs (createAudio playable ct playing a s))"
    by (rule Cons.IH)
  also have "\<dots> \<subseteq> el_id ` set as \<union> insert (el_id a) (fst ` set (audioRefs s))"
    using keys_createAudio [of playable ct playing a s] by blast
  finally show ?case by auto
qed

lemma map_of_removeInactive:
  "map_of (audioRefs (removeInactive act i s)) k =
     (if k = i \<and> i \<notin> el_id ` set act then None else map_of (audioRefs s) k)"
  by (auto simp: removeInactive_def list_ex_iff AList.delete_conv' split: option.split)

lemma released_removeInactive_mono:
  "set (released s) \<subseteq> set (released (removeInactive act i s))"
  by (auto simp: removeInactive_def split: option.split)

lemma released_removeInactive_new:
  "i \<notin> el_id ` set act \<Longrightarrow> map_of (audioRefs s) i = Some pl \<Longrightarrow>
     (i, pl\<lparr>player_paused := True\<rparr>) \<in> set (released (removeInactive act i s))"
  by (auto simp: removeInactive_def list_ex_iff)

lemma map_of_fold_removeInactive:
  "map_of (audioRefs (fold (removeInactive act) ks s)) k =
     (if k \<in> set ks \<and> k \<notin> el_id ` set act then None else map_of (audioRefs s) k)"
  by (induction ks arbitrary: s) (auto simp: map_of_removeInactive)

lemma released_fold_removeInactive_mono:
  "set (released s) \<subseteq> set (released (fold (removeInactive act) ks s))"
proof (induction ks arbitrary: s)
  case Nil
  then show ?case by simp
next
  case (Cons k ks)
  show ?case
    using released_removeInactive_mono [of s act k] Cons.IH [of "removeInactive act k s"]
    by auto
qed

lemma released_fold_removeInactive:
  "k \<in> set ks \<Longrightarrow> k \<notin> el_id ` set act \<Longrightarrow> map_of (audioRefs s) k = Some pl \<Longrightarrow>
     (k, pl\<lparr>player_paused := True\<rparr>) \<in> set (released (fold (removeInactive act) ks s))"
proof (induction ks arbitrary: s)
  case Nil
  then show ?case by simp
next
  case (Cons h ks)
  show ?case
  proof (cases "h = k")
    case True
    have "(k, pl\<lparr>player_paused := True\<rparr>) \<in> set (released (removeInactive act k s))"
      using Cons.prems(2,3) by (rule released_removeInactive_new)
    then show ?thesis
      using released_fold_removeInactive_mono [of "removeInactive act k s" act ks] True
      by auto
  next
    case False
    with Cons.prems(1) have "k \<in> set ks" by simp
    moreover have "map_of (audioRefs (removeInactive act h s)) k = Some pl"
      using False Cons.prems(3) by (simp add: map_of_removeInactive)
    ultimately show ?thesis
      using Cons.IH [of "removeInactive act h s"] Cons.prems(2) by simp
  qed
qed

lemma key_iff_map_of: "k \<in> fst ` set al \<longleftrightarrow> map_of al k \<noteq> None"
  by (simp add: map_of_eq_None_iff)

text \<open>
  Claim C8. After a reconciliation pass, every player whose element id is not in the active
  set has been paused and removed from the pool, and every player still in the pool belongs
  to an audio element whose window contains the current time, so no player outlives the
  window of its element. On unmount every player is paused and the pool is emptied.
\<close>

theorem inactive_sessions_released:
  fixes st :: preview and els :: "element list" and ct :: real
    and playable :: "string \<Rightarrow> bool" and playing :: bool
  defines "active \<equiv> activeAudioElements els ct"
  defines "st' \<equiv> reconcileAudio playable els ct playing st"
  shows "(\<forall>i pl. map_of (audioRefs st) i = Some pl \<and> i \<notin> el_id ` set active \<longrightarrow>
            map_of (audioRefs st') i = None
            \<and> (i, pl\<lparr>player_paused := True\<rparr>) \<in> set (released st'))
     \<and> (\<forall>i \<in> fst ` set (audioRefs st').
            \<exists>a \<in> set els. el_id a = i \<and> el_type a = Audio \<and> el_start a \<le> ct \<and> ct \<le> el_end a)
     \<and> audioRefs (unmountAudio st) = []
     \<and> (\<forall>(i, pl) \<in> set (audioRefs st).
            (i, pl\<lparr>player_paused := True\<rparr>) \<in> set (released (unmountAudio st)))"
proof -
  define st2 where
    "st2 = fold (createAudio playable ct playing) active (st\<lparr>activeAudioElementsRef := active\<rparr>)"
  have st': "st' = fold (removeInactive active) (map fst (audioRefs st2)) st2"
    by (simp add: st'_def reconcileAudio_def Let_def st2_def active_def)
  have a: "map_of (audioRefs st') i = None
      \<and> (i, pl\<lparr>player_paused := True\<rparr>) \<in> set (released st')"
    if old: "map_of (audioRefs st) i = Some pl" and out: "i \<notin> el_id ` set active" for i pl
  proof -
    have kept: "map_of (audioRefs st2) i = Some pl"
      unfolding st2_def using old by (intro map_of_fold_createAudio_keep) simp
    then have key: "i \<in> set (map fst (audioRefs st2))"
      using key_iff_map_of [of i "audioRefs st2"] by simp
    have "map_of (audioRefs st') i = None"
      unfolding st' using key out by (simp add: map_of_fold_removeInactive)
    moreover have "(i, pl\<lparr>player_paused := True\<rparr>) \<in> set (released st')"
      unfolding st' using key out kept by (rule released_fold_removeInactive)
    ultimately show ?thesis by simp
  qed
  have b: "\<exists>a \<in> set els. el_id a = i \<and> el_type a = Audio \<and> el_start a \<le> ct \<and> ct \<le> el_end a"
    if "i \<in> fst ` set (audioRefs st')" for i
  proof -
    from that have some: "map_of (audioRefs st') i \<noteq> None"
      using key_iff_map_of [of i "audioRefs st'"] by blast
    then have "\<not> (i \<in> set (map fst (audioRefs st2)) \<and> i \<notin> el_id ` set active)"
        and "map_of (audioRefs st2) i \<noteq> None"
      unfolding st' map_of_fold_removeInactive by (auto split: if_splits)
    then have "i \<in> el_id ` set active"
      using key_iff_map_of [of i "audioRefs st2"] by simp
    then obtain a where "a \<in> set active" "el_id a = i" by auto
    then show ?thesis
      unfolding active_def activeAudioElements_def inWindow_def by auto
  qed
  have c: "audioRefs (unmountAudio st) = []"
    by (simp add: unmountAudio_def)
  have d: "\<forall>(i, pl) \<in> set (audioRefs st).
      (i, pl\<lparr>player_paused := True\<rparr>) \<in> set (released (unmountAudio st))"
    by (force simp: unmountAudio_def)
  from a b c d show ?thesis by blast
qed

text \<open>
  At time 6 the first clip of the example has left its window: its player is paused and
  dropped, the second stays.
\<close>

theorem inactive_sessions_released_witness:
  "map_of (audioRefs (reconcileAudio (\<lambda>_. True) exampleElements 6 False examplePreview)) ''a1''
     = None
   \<and> (''a1'', \<lparr>player_src = ''a1.mp3'', player_currentTime = 4, player_volume = 1,
               player_muted = False, player_paused = True\<rparr>)
       \<in> set (released (reconcileAudio (\<lambda>_. True) exampleElements 6 False examplePreview))
   \<and> audioRefs (unmountAudio examplePreview) = []"
proof -
  let ?pl = "\<lparr>player_src = ''a1.mp3'', player_currentTime = 4, player_volume = 1,
              player_muted = False, player_paused = True\<rparr>"
  note t = inactive_sessions_released [where st = examplePreview and els = exampleElements
      and ct = 6 and playable = "\<lambda>_. True" and playing = False]
  have h: "map_of (audioRefs examplePreview) ''a1'' = Some ?pl"
    by (simp add: examplePreview_def initialPreview_def)
  have o: "''a1'' \<notin> el_id ` set (activeAudioElements exampleElements 6)"
    by (simp add: activeAudioElements_def exampleElements_def inWindow_def)
  from t h o have "map_of (audioRefs (reconcileAudio (\<lambda>_. True) exampleElements 6 False examplePreview)) ''a1''
     = None
   \<and> (''a1'', ?pl\<lparr>player_paused := True\<rparr>)
       \<in> set (released (reconcileAudio (\<lambda>_. True) exampleElements 6 False examplePreview))"
    by blast
  moreover from t have "audioRefs (unmountAudio examplePreview) = []"
    by (elim conjE)
  ultimately show ?thesis by simp
qed

section \<open>Theorems: the video player\<close>

subsection \<open>Drift correction\<close>

text \<open>Within the tolerance of 0.2 s the synchronisation effect does nothing.\<close>

lemma syncVideoTime_within:
  assumes "videoRef st = Some video" "\<bar>video_currentTime video - ct\<bar> \<le> 0.2"
  shows "syncVideoTime ct st = st"
  using assms by (simp add: syncVideoTime_def)

text \<open>
  Beyond it, the effect seeks the player once, raises the blocker and starts one timeout of
  50 ms; while the blocker is up a time report of the player is not forwarded.
\<close>

lemma syncVideoTime_beyond:
  assumes "videoRef st = Some video" "\<bar>video_currentTime video - ct\<bar> > 0.2"
  shows "syncVideoTime ct st =
           st\<lparr>timeUpdateBlocker := True,
              videoRef := Some (video\<lparr>video_currentTime := ct\<rparr>),
              timers := timers st @ [now st + 50]\<rparr>"
    and "handleTimeUpdate (syncVideoTime ct st) = syncVideoTime ct st"
  using assms by (simp_all add: syncVideoTime_def handleTimeUpdate_def)

text \<open>The blocker survives the passing of time as long as no timeout comes due.\<close>

lemma elapse_keeps_blocker:
  assumes "\<forall>deadline \<in> set (timers st). now st + d < deadline"
  shows "timeUpdateBlocker (elapse d st) = timeUpdateBlocker st"
proof -
  from assms have "filter (\<lambda>deadline. deadline \<le> now st + d) (timers st) = []"
    by (auto simp: filter_empty_conv)
  then show ?thesis
    by (simp add: elapse_def Let_def)
qed

text \<open>
  A correction with no earlier timeout pending blocks the reports for 50 ms: the blocker is
  up for every delay below 50 and down from 50 on.
\<close>

lemma isolated_correction_window:
  assumes "videoRef st = Some video" "\<bar>video_currentTime video - ct\<bar> > 0.2" "timers st = []"
  shows "timeUpdateBlocker (elapse d (syncVideoTime ct st)) \<longleftrightarrow> d < 50"
  using assms
  by (simp add: syncVideoTime_def elapse_def Let_def resetBlocker_def)

text \<open>
  Claim C4. When the position of the video player differs from the current time by more
  than 0.2 s, one seek sets it to the current time and the time reports of the player are
  kept from \<open>onTimeUpdate\<close> for about 50 ms after the correction; up to 0.2 s nothing is
  sought. The seek and its threshold are as claimed, and so is the window of a correction
  that stands alone. The timeout of an earlier correction is not cancelled by a later one,
  though: with corrections at 0 ms and at 40 ms, the first timeout lowers the blocker at
  50 ms, and a time report at 55 ms, 15 ms after the second correction, is forwarded.
\<close>

theorem overlapping_corrections_unblock_early:
  "videoRef (syncVideoTime 8 (elapse 40 (syncVideoTime 5 videoPreview))) =
       Some \<lparr>video_currentTime = 8, video_volume = 1, video_muted = False, video_paused = True\<rparr>
   \<and> timeUpdateBlocker (syncVideoTime 8 (elapse 40 (syncVideoTime 5 videoPreview)))
   \<and> now (syncVideoTime 8 (elapse 40 (syncVideoTime 5 videoPreview))) = 40
   \<and> timers (syncVideoTime 8 (elapse 40 (syncVideoTime 5 videoPreview))) = [50, 90]
   \<and> now (elapse 15 (syncVideoTime 8 (elapse 40 (syncVideoTime 5 videoPreview)))) = 55
   \<and> \<not> timeUpdateBlocker (elapse 15 (syncVideoTime 8 (elapse 40 (syncVideoTime 5 videoPreview))))
   \<and> calls (handleTimeUpdate
        (elapse 15 (syncVideoTime 8 (elapse 40 (syncVideoTime 5 videoPreview))))) =
       [OnTimeUpdate 8]"
proof -
  define v where "v = \<lparr>video_currentTime = 0, video_volume = 1,
                        video_muted = False, video_paused = True\<rparr>"
  have s1: "syncVideoTime 5 videoPreview =
      videoPreview\<lparr>timeUpdateBlocker := True,
                   videoRef := Some (v\<lparr>video_currentTime := 5\<rparr>), timers := [50]\<rparr>"
    by (simp add: syncVideoTime_def videoPreview_def initialPreview_def v_def)
  have s2: "elapse 40 (syncVideoTime 5 videoPreview) =
      videoPreview\<lparr>timeUpdateBlocker := True,
                   videoRef := Some (v\<lparr>video_currentTime := 5\<rparr>), timers := [50], now := 40\<rparr>"
    unfolding s1 by (simp add: elapse_def Let_def videoPreview_def initialPreview_def)
  have s3: "syncVideoTime 8 (elapse 40 (syncVideoTime 5 videoPreview)) =
      videoPreview\<lparr>timeUpdateBlocker := True,
                   videoRef := Some (v\<lparr>video_currentTime := 8\<rparr>), timers := [50, 90], now := 40\<rparr>"
    unfolding s2 by (simp add: syncVideoTime_def videoPreview_def initialPreview_def v_def)
  have s4: "elapse 15 (syncVideoTime 8 (elapse 40 (syncVideoTime 5 videoPreview))) =
      videoPreview\<lparr>timeUpdateBlocker := False,
                   videoRef := Some (v\<lparr>video_currentTime := 8\<rparr>), timers := [90], now := 55\<rparr>"
    unfolding s3 by (simp add: elapse_def Let_def resetBlocker_def videoPreview_def initialPreview_def)
  have s5: "calls (handleTimeUpdate
      (elapse 15 (syncVideoTime 8 (elapse 40 (syncVideoTime 5 videoPreview))))) = [OnTimeUpdate 8]"
    unfolding s4 by (simp add: handleTimeUpdate_def videoPreview_def initialPreview_def)
  have r3: "videoRef (syncVideoTime 8 (elapse 40 (syncVideoTime 5 videoPreview))) =
       Some \<lparr>video_currentTime = 8, video_volume = 1, video_muted = False, video_paused = True\<rparr>
   \<and> timeUpdateBlocker (syncVideoTime 8 (elapse 40 (syncVideoTime 5 videoPreview)))
   \<and> now (syncVideoTime 8 (elapse 40 (syncVideoTime 5 videoPreview))) = 40
   \<and> timers (syncVideoTime 8 (elapse 40 (syncVideoTime 5 videoPreview))) = [50, 90]"
    unfolding s3 by (simp add: v_def)
  have r4: "now (elapse 15 (syncVideoTime 8 (elapse 40 (syncVideoTime 5 videoPreview)))) = 55
   \<and> \<not> timeUpdateBlocker (elapse 15 (syncVideoTime 8 (elapse 40 (syncVideoTime 5 videoPreview))))"
    unfolding s4 by simp
  from r3 r4 s5 show ?thesis
    by blast
qed

subsection \<open>Play on an ended video\<close>

text \<open>
  The play button asks the parent to restart before it asks it to play, when the video has
  ended or the current time is within 0.1 s of the duration.
\<close>

lemma handlePlay_restart:
  assumes "videoEnded st \<or> ct \<ge> duration - 0.1"
  shows "handlePlay ct duration st =
           st\<lparr>videoEnded := False, calls := calls st @ [OnRestart, OnPlay]\<rparr>"
  using assms by (simp add: handlePlay_def handleRestart_def)

text \<open>
  The play/pause effect sets the clock and the player to 0 before it starts the player, when
  the video had ended and the current time is within 0.1 s of the duration. A refused start
  is followed by \<open>onPause()\<close>. Either way the blocker is down when the effect is done.
\<close>

lemma playPauseEffect_restart:
  assumes "videoRef st = Some video" "videoEnded st" "ct \<ge> duration - 0.1"
  shows "playPauseEffect True True ct duration st =
           st\<lparr>videoEnded := False, timeUpdateBlocker := False,
              calls := calls st @ [OnTimeUpdate 0],
              videoRef := Some (video\<lparr>video_currentTime := 0, video_muted := isMuted st,
                                       video_paused := False\<rparr>)\<rparr>"
    and "playPauseEffect False True ct duration st =
           st\<lparr>videoEnded := False, timeUpdateBlocker := False,
              calls := calls st @ [OnTimeUpdate 0, OnPause],
              console_errors := console_errors st @ [VideoPlayError],
              videoRef := Some (video\<lparr>video_currentTime := 0, video_muted := isMuted st\<rparr>)\<rparr>"
  using assms by (simp_all add: playPauseEffect_def Let_def)

text \<open>
  On the ended video that was scrubbed back to 3 s the effect starts the player where it is
  and calls nothing, where the play button asks for a restart.
\<close>

lemma scrubbed_back_effect_and_button:
  "videoEnded scrubbedBackPreview
   \<and> calls (playPauseEffect True True 3 10 scrubbedBackPreview) = []
   \<and> videoRef (playPauseEffect True True 3 10 scrubbedBackPreview) =
       Some \<lparr>video_currentTime = 3, video_volume = 1, video_muted = False, video_paused = False\<rparr>
   \<and> calls (handlePlay 3 10 scrubbedBackPreview) = [OnRestart, OnPlay]"
  by (simp add: playPauseEffect_def handlePlay_def handleRestart_def Let_def
      scrubbedBackPreview_def initialPreview_def)

text \<open>
  Claim C7. When \<open>isPlaying\<close> becomes true on a video that has ended, or at a current time
  within 0.1 s of the duration, the clock is set to 0 before playback resumes and the time
  report that this correction causes is kept from the clock. On the video of the example,
  ended at 10 s of 10, the effect calls \<open>onTimeUpdate(0)\<close> and seeks the player to 0 before
  it starts it, but it raises and lowers the blocker in the same run, before any event of
  the player can be delivered: no timeout is pending afterwards, the render for the new
  clock time finds the player in step and leaves the blocker down, and the next time report
  is forwarded to \<open>onTimeUpdate\<close>.
\<close>

theorem restart_feedback_not_suppressed:
  "videoEnded endedPreview
   \<and> calls (playPauseEffect True True 10 10 endedPreview) = [OnTimeUpdate 0]
   \<and> videoRef (playPauseEffect True True 10 10 endedPreview) =
       Some \<lparr>video_currentTime = 0, video_volume = 1, video_muted = False, video_paused = False\<rparr>
   \<and> \<not> timeUpdateBlocker (playPauseEffect True True 10 10 endedPreview)
   \<and> timers (playPauseEffect True True 10 10 endedPreview) = []
   \<and> calls (handleTimeUpdate (playPauseEffect True True 10 10 endedPreview)) =
       [OnTimeUpdate 0, OnTimeUpdate 0]
   \<and> \<not> timeUpdateBlocker
         (onCurrentTimeChange (\<lambda>_. True) True exampleElements True 0 10
            (playPauseEffect True True 10 10 endedPreview))
   \<and> calls (handleTimeUpdate
         (onCurrentTimeChange (\<lambda>_. True) True exampleElements True 0 10
            (playPauseEffect True True 10 10 endedPreview))) =
       [OnTimeUpdate 0, OnTimeUpdate 0]"
proof -
  define v where "v = \<lparr>video_currentTime = 0, video_volume = 1,
                        video_muted = False, video_paused = False\<rparr>"
  define s1 where "s1 = endedPreview\<lparr>videoEnded := False, timeUpdateBlocker := False,
      calls := [OnTimeUpdate 0], videoRef := Some v\<rparr>"
  have e: "playPauseEffect True True 10 10 endedPreview = s1"
    by (simp add: playPauseEffect_def Let_def endedPreview_def initialPreview_def s1_def v_def)
  have f: "videoRef s1 = Some v" "\<not> timeUpdateBlocker s1" "calls s1 = [OnTimeUpdate 0]"
      "timers s1 = []" "\<not> videoEnded s1"
    by (simp_all add: s1_def endedPreview_def initialPreview_def)
  have h1: "calls (handleTimeUpdate s1) = [OnTimeUpdate 0, OnTimeUpdate 0]"
    by (simp add: handleTimeUpdate_def f v_def)
  define a1 where "a1 = exampleElements ! 0"
  have a1: "el_id a1 = ''a1''" "el_start a1 = 0"
      "el_content a1 = \<lparr>content_src = ''a1.mp3'', content_crop = None,
                        content_volume = None, content_muted = None\<rparr>"
    by (simp_all add: a1_def exampleElements_def)
  have active: "activeAudioElements exampleElements 0 = [a1]"
    by (simp add: activeAudioElements_def exampleElements_def inWindow_def a1_def)
  define s2 where "s2 = s1
      \<lparr>audioRefs :=
         [(''a1'', \<lparr>player_src = ''a1.mp3'', player_currentTime = 0, player_volume = 1,
                    player_muted = False, player_paused = False\<rparr>)],
       activeAudioElementsRef := [a1]\<rparr>"
  have rec: "reconcileAudio (\<lambda>_. True) exampleElements 0 True s1 = s2"
    unfolding reconcileAudio_def active
    by (simp add: s2_def s1_def Let_def createAudio_def playAudio_def newAudio_def
        removeInactive_def a1 endedPreview_def initialPreview_def)
  have sync: "syncAudioTime 0 s2 = s2\<lparr>lastTimeRef := 0\<rparr>"
    by (simp add: syncAudioTime_def syncOneAudio_def s2_def s1_def Let_def a1 endedPreview_def
        initialPreview_def)
  have play: "playPauseEffect True True 0 10 (s2\<lparr>lastTimeRef := 0\<rparr>) = s2\<lparr>lastTimeRef := 0\<rparr>"
    by (simp add: playPauseEffect_def Let_def s2_def s1_def v_def endedPreview_def
        initialPreview_def)
  have video: "syncVideoTime 0 (s2\<lparr>lastTimeRef := 0\<rparr>) = s2\<lparr>lastTimeRef := 0\<rparr>"
    by (simp add: syncVideoTime_def s2_def s1_def v_def endedPreview_def initialPreview_def)
  have commit: "onCurrentTimeChange (\<lambda>_. True) True exampleElements True 0 10 s1 =
      s2\<lparr>lastTimeRef := 0\<rparr>"
    by (simp add: onCurrentTimeChange_def rec sync play video)
  have g: "\<not> timeUpdateBlocker (s2\<lparr>lastTimeRef := 0\<rparr>)"
    by (simp add: s2_def f)
  have h2: "calls (handleTimeUpdate (s2\<lparr>lastTimeRef := 0\<rparr>)) = [OnTimeUpdate 0, OnTimeUpdate 0]"
    by (simp add: handleTimeUpdate_def s2_def f v_def)
  have ended: "videoEnded endedPreview"
    by (simp add: endedPreview_def initialPreview_def)
  show ?thesis
    unfolding e commit using ended f g h1 h2 by (simp add: v_def)
qed

end
